theory Spec2Isabelle
  imports Complex_Main "HOL-Library.Multiset"
begin

section \<open>JavaScript values\<close>

text \<open>
  A thrown \<open>Error\<close> is a value carrying its message; a function that can throw returns
  \<open>error + 'a\<close>, with \<open>Inl\<close> for the throw. An argument that may be \<open>null\<close> or
  \<open>undefined\<close> is a \<open>js_ref\<close>. Strings are lists of code units, a \<open>char\<close> holding a
  code unit below 256. The white space that \<open>trim\<close> removes is, among these, the tab,
  the line feed, the vertical tab, the form feed, the carriage return, the space and
  the no-break space.
\<close>

datatype error = Error string

datatype 'a js_ref = Null | Undefined | Value 'a

definition is_ws :: "char \<Rightarrow> bool" where
  "is_ws c = (c = CHR '' '' \<or> c = CHR 0x09 \<or> c = CHR 0x0A \<or> c = CHR 0x0B
              \<or> c = CHR 0x0C \<or> c = CHR 0x0D \<or> c = CHR 0xA0)"

definition js_trim :: "string \<Rightarrow> string" where
  \<comment> \<open>\<open>String.prototype.trim\<close>\<close>
  "js_trim s = rev (dropWhile is_ws (rev (dropWhile is_ws s)))"

definition isBlank :: "string \<Rightarrow> bool" where
  \<comment> \<open>\<open>!text || text.trim().length === 0\<close>\<close>
  "isBlank s = (if s = [] then True else length (js_trim s) = 0)"

definition truthy :: "string option \<Rightarrow> bool" where
  \<comment> \<open>truthiness of an optional string: absent and \<open>''\<close> are falsy\<close>
  "truthy v = (case v of None \<Rightarrow> False | Some s \<Rightarrow> (if s = [] then False else True))"

definition js_slice0 :: "'a list \<Rightarrow> int \<Rightarrow> 'a list" where
  \<comment> \<open>\<open>xs.slice(0, n)\<close>: a negative end counts from the end of the array\<close>
  "js_slice0 xs n = (if 0 \<le> n then take (nat n) xs else take (length xs - nat (- n)) xs)"

definition js_substring0 :: "string \<Rightarrow> int \<Rightarrow> string" where
  \<comment> \<open>\<open>s.substring(0, n)\<close>: a negative end is read as 0\<close>
  "js_substring0 s n = (if n < 0 then [] else take (nat n) s)"

fun js_join :: "string \<Rightarrow> string list \<Rightarrow> string" where
  "js_join sep [] = []"
| "js_join sep [x] = x"
| "js_join sep (x # y # ys) = x @ sep @ js_join sep (y # ys)"

fun string_of_nat :: "nat \<Rightarrow> string" where
  "string_of_nat n =
     (if n < 10 then [''0123456789'' ! n]
      else string_of_nat (n div 10) @ [''0123456789'' ! (n mod 10)])"

declare string_of_nat.simps [simp del]

section \<open>The vector index and the embedding provider\<close>

record metadata =
  md_documentId :: string
  md_chunkIndex :: nat
  md_text :: "string option"

record index_record =
  rec_id :: string
  rec_values :: "real list"
  rec_metadata :: metadata

record index_match =
  m_id :: string
  m_score :: real
  m_metadata :: "metadata option"

record query_options =
  q_vector :: "real list option"
  q_id :: "string option"
  q_topK :: int
  q_includeMetadata :: bool
  q_filter :: "string option"

record index_stats =
  st_dimension :: "nat option"
  st_totalRecordCount :: "nat option"

datatype ext_call =
    EmbedQuery string
  | DescribeIndexStats
  | Upsert "index_record list"
  | Query query_options
  | DeleteMany "string list"

text \<open>
  The remote services answer as the environment \<open>env\<close> says. The embedding provider,
  the index statistics and the upsert are asked several times in one run, and may answer
  differently each time: their first argument is the position of the call in the run
  (the chunk index, the number of the statistics call, the number of the batch).
  \<open>ix_query\<close> answers \<open>None\<close> when the response carries no \<open>matches\<close>. An embedding
  is a list of numbers; the empty list stands for every answer of the provider that
  \<open>indexDocument\<close> rejects as invalid.
\<close>

record env =
  splitText :: "string \<Rightarrow> error + string list"
  embedQuery :: "nat \<Rightarrow> string \<Rightarrow> error + real list"
  describeIndexStats :: "nat \<Rightarrow> error + index_stats"
  ix_upsert :: "nat \<Rightarrow> index_record list \<Rightarrow> error option"
  ix_query :: "query_options \<Rightarrow> error + index_match list option"
  ix_deleteMany :: "string list \<Rightarrow> error option"

text \<open>
  The world a run changes: the records held by the index, by id, and the calls made to
  the remote services so far, oldest first.
\<close>

record world =
  store :: "string \<rightharpoonup> index_record"
  calls :: "ext_call list"

definition called :: "ext_call \<Rightarrow> world \<Rightarrow> world" where
  "called c w = w\<lparr>calls := calls w @ [c]\<rparr>"

definition commit :: "index_record list \<Rightarrow> world \<Rightarrow> world" where
  \<comment> \<open>an upsert overwrites by id, in the order of the batch\<close>
  "commit batch w = w\<lparr>store := fold (\<lambda>r m. m(rec_id r \<mapsto> r)) batch (store w)\<rparr>"

definition is_Upsert :: "ext_call \<Rightarrow> bool" where
  "is_Upsert c = (case c of Upsert b \<Rightarrow> True | _ \<Rightarrow> False)"

definition is_EmbedQuery :: "ext_call \<Rightarrow> bool" where
  "is_EmbedQuery c = (case c of EmbedQuery t \<Rightarrow> True | _ \<Rightarrow> False)"

section \<open>RAGService.deleteDocument\<close>

definition deleteMany :: "env \<Rightarrow> string list \<Rightarrow> world \<Rightarrow> (error + unit) \<times> world" where
  "deleteMany env ids w =
     (let w1 = called (DeleteMany ids) w
      in case ix_deleteMany env ids of
           Some e \<Rightarrow> (Inl e, w1)
         | None \<Rightarrow> (Inr (), w1\<lparr>store := (\<lambda>k. if k \<in> set ids then None else store w1 k)\<rparr>))"

definition deleteDocument :: "env \<Rightarrow> string list js_ref \<Rightarrow> world \<Rightarrow> (error + unit) \<times> world" where
  "deleteDocument env vectorIds w =
     (case vectorIds of
        Null \<Rightarrow> (Inr (), w)
      | Undefined \<Rightarrow> (Inr (), w)
      | Value ids \<Rightarrow> (if length ids = 0 then (Inr (), w) else deleteMany env ids w))"

section \<open>RAGService.queryDocuments\<close>

record retrieval_result =
  r_id :: string
  r_score :: real
  r_text :: string
  r_metadata :: metadata

definition hasText :: "index_match \<Rightarrow> bool" where
  \<comment> \<open>\<open>m.metadata && m.metadata.text\<close>\<close>
  "hasText m = (case m_metadata m of None \<Rightarrow> False | Some md \<Rightarrow> truthy (md_text md))"

definition toResult :: "index_match \<Rightarrow> retrieval_result" where
  "toResult m =
     (case m_metadata m of
        Some md \<Rightarrow> \<lparr>r_id = m_id m, r_score = m_score m,
                    r_text = (case md_text md of Some t \<Rightarrow> t | None \<Rightarrow> []),
                    r_metadata = md\<rparr>
      | None \<Rightarrow> \<lparr>r_id = m_id m, r_score = m_score m, r_text = [],
                  r_metadata = \<lparr>md_documentId = [], md_chunkIndex = 0, md_text = None\<rparr>\<rparr>)"

definition noMatches :: "env \<Rightarrow> world \<Rightarrow> (error + retrieval_result list) \<times> world" where
  \<comment> \<open>the statistics are read for the log only; a failure there is caught\<close>
  "noMatches env w = (Inr [], called DescribeIndexStats w)"

definition queryOptions :: "real list \<Rightarrow> string option \<Rightarrow> int \<Rightarrow> query_options" where
  "queryOptions queryEmbedding documentId topK =
     \<lparr>q_vector = Some queryEmbedding, q_id = None, q_topK = max topK 10,
      q_includeMetadata = True,
      q_filter = (if truthy documentId then documentId else None)\<rparr>"

definition queryDocuments ::
  "env \<Rightarrow> string \<Rightarrow> string option \<Rightarrow> int \<Rightarrow> world \<Rightarrow> (error + retrieval_result list) \<times> world" where
  "queryDocuments env question documentId topK w =
     (if isBlank question then (Inr [], w)
      else
        (let w1 = called (EmbedQuery question) w
         in (case embedQuery env 0 question of
               Inl e \<Rightarrow> (Inl e, w1)
             | Inr queryEmbedding \<Rightarrow>
                 (let opts = queryOptions queryEmbedding documentId topK;
                      w2 = called (Query opts) w1
                  in (case ix_query env opts of
                        Inl e \<Rightarrow> (Inl e, w2)
                      | Inr None \<Rightarrow> noMatches env w2
                      | Inr (Some ms) \<Rightarrow>
                          (if length ms = 0 then noMatches env w2
                           else
                             (let texts = map toResult (filter hasText ms)
                              in (Inr (js_slice0 texts topK), w2))))))))"

section \<open>RAGService.indexDocument\<close>

definition BATCH_SIZE :: nat where
  "BATCH_SIZE = 50"

definition chunkId :: "string \<Rightarrow> nat \<Rightarrow> string" where
  \<comment> \<open>the template \<open>${documentId}_chunk_${i}\<close>\<close>
  "chunkId documentId i = documentId @ ''_chunk_'' @ string_of_nat i"

definition chunkRecord :: "string \<Rightarrow> nat \<Rightarrow> string \<Rightarrow> real list \<Rightarrow> index_record" where
  "chunkRecord documentId i chunk embedding =
     \<lparr>rec_id = chunkId documentId i, rec_values = embedding,
      rec_metadata = \<lparr>md_documentId = documentId, md_chunkIndex = i, md_text = Some chunk\<rparr>\<rparr>"

text \<open>
  The loop over the chunks, from chunk \<open>i\<close> on: a blank chunk is skipped, a throw of the
  provider or an empty embedding is rethrown, every other chunk adds a record to
  \<open>vectors\<close>.
\<close>

fun embedChunks ::
  "env \<Rightarrow> string \<Rightarrow> nat \<Rightarrow> string list \<Rightarrow> index_record list \<Rightarrow> world
   \<Rightarrow> (error + index_record list) \<times> world" where
  "embedChunks env documentId i [] vectors w = (Inr vectors, w)"
| "embedChunks env documentId i (chunk # rest) vectors w =
     (if isBlank chunk then embedChunks env documentId (i + 1) rest vectors w
      else
        (let w1 = called (EmbedQuery chunk) w
         in (case embedQuery env i chunk of
               Inl e \<Rightarrow> (Inl e, w1)
             | Inr embedding \<Rightarrow>
                 (if length embedding = 0
                  then (Inl (Error (''Invalid embedding for chunk '' @ string_of_nat i)), w1)
                  else embedChunks env documentId (i + 1) rest
                         (vectors @ [chunkRecord documentId i chunk embedding]) w1))))"

text \<open>
  \<open>_batchUpsert\<close>: the batches of \<open>BATCH_SIZE\<close> records from position \<open>i\<close> on, one
  upsert each; a failed upsert is rethrown and the later batches are not sent.
\<close>

function batchUpsert :: "env \<Rightarrow> index_record list \<Rightarrow> nat \<Rightarrow> world \<Rightarrow> (error + unit) \<times> world" where
  "batchUpsert env vectors i w =
     (if i < length vectors then
        (let batch = take BATCH_SIZE (drop i vectors);
             w1 = called (Upsert batch) w
         in (case ix_upsert env (i div BATCH_SIZE) batch of
               Some upsertError \<Rightarrow> (Inl upsertError, w1)
             | None \<Rightarrow> batchUpsert env vectors (i + BATCH_SIZE) (commit batch w1)))
      else (Inr (), w))"
  by pat_completeness auto
termination
  by (relation "measure (\<lambda>(env, vectors, i, w). length vectors - i)")
     (auto simp: BATCH_SIZE_def)

declare batchUpsert.simps [simp del]

text \<open>
  The body of the \<open>try\<close> that checks the dimension: it throws when the statistics cannot
  be read and when the dimension of the first vector is not the one of the index
  (\<open>stats.dimension || 384\<close>).
\<close>

definition checkDimension :: "env \<Rightarrow> index_record list \<Rightarrow> error + unit" where
  "checkDimension env vectors =
     (case describeIndexStats env 0 of
        Inl e \<Rightarrow> Inl e
      | Inr stats \<Rightarrow>
          (let expectedDim = (case st_dimension stats of
                                None \<Rightarrow> 384
                              | Some d \<Rightarrow> (if d = 0 then 384 else d))
           in (case vectors of
                 [] \<Rightarrow> Inl (Error ''TypeError'')
               | v # vs \<Rightarrow>
                   (let actualDim = length (rec_values v)
                    in (if actualDim \<noteq> expectedDim
                        then Inl (Error (''Dimension mismatch: expected ''
                                         @ string_of_nat expectedDim @ '', got ''
                                         @ string_of_nat actualDim))
                        else Inr ())))))"

text \<open>
  The check after the upsert: the statistics are read and the first record is queried
  by id; what they answer is only logged, and a throw is caught.
\<close>

definition verifyUpload :: "env \<Rightarrow> index_record list \<Rightarrow> world \<Rightarrow> world" where
  "verifyUpload env vectors w =
     (let w1 = called DescribeIndexStats w
      in (case describeIndexStats env 1 of
            Inl verifyErr \<Rightarrow> w1
          | Inr finalStats \<Rightarrow>
              (case vectors of
                 [] \<Rightarrow> w1
               | v # vs \<Rightarrow>
                   called (Query \<lparr>q_vector = None, q_id = Some (rec_id v), q_topK = 1,
                                  q_includeMetadata = True, q_filter = None\<rparr>) w1)))"

text \<open>
  The rest of \<open>indexDocument\<close>, once the vectors are built: the dimension check, the
  batched upsert and the check of the upload; the ids of the vectors are returned.
\<close>

definition upsertAll ::
  "env \<Rightarrow> index_record list \<Rightarrow> world \<Rightarrow> (error + string list) \<times> world" where
  "upsertAll env vectors w =
     (let w1 = called DescribeIndexStats w;
          \<comment> \<open>the \<open>catch\<close> of the dimension check only warns: both outcomes go on\<close>
          w2 = (case checkDimension env vectors of Inl descError \<Rightarrow> w1 | Inr u \<Rightarrow> w1)
      in (case batchUpsert env vectors 0 w2 of
            (Inl e, w3) \<Rightarrow> (Inl e, w3)
          | (Inr u, w3) \<Rightarrow> (Inr (map rec_id vectors), verifyUpload env vectors w3)))"

definition indexDocument ::
  "env \<Rightarrow> string \<Rightarrow> string \<Rightarrow> world \<Rightarrow> (error + string list) \<times> world" where
  "indexDocument env documentId text w =
     (if isBlank text then (Inl (Error ''Empty document text''), w)
      else
        (case splitText env text of
           Inl e \<Rightarrow> (Inl e, w)
         | Inr chunks \<Rightarrow>
             (if length chunks = 0 then (Inl (Error ''No chunks created''), w)
              else
                (case embedChunks env documentId 0 chunks [] w of
                   (Inl chunkErr, w1) \<Rightarrow> (Inl chunkErr, w1)
                 | (Inr vectors, w1) \<Rightarrow>
                     (if length vectors = 0 then (Inl (Error ''No vectors created''), w1)
                      else upsertAll env vectors w1)))))"

section \<open>The query route: context assembly and fallback\<close>

record document =
  d_id :: string
  d_originalName :: string
  d_textContent :: "string option"

record request_settings =
  rs_aiModel :: "string option"
  rs_temperature :: "real option"
  rs_maxTokens :: "int option"
  rs_topK :: "int option"
  rs_chunkSize :: "int option"

record settings =
  cfg_aiModel :: string
  cfg_temperature :: real
  cfg_maxTokens :: int
  cfg_topK :: int
  cfg_chunkSize :: int

record request =
  rq_question :: "string option"
  rq_documentId :: "string option"
  rq_settings :: "request_settings option"

record chat_request =
  cr_model :: string
  cr_system :: string
  cr_user :: string
  cr_max_tokens :: int
  cr_temperature :: real

record source =
  src_text :: string
  src_score :: real
  src_documentName :: "string option"

record answer_body =
  a_answer :: string
  a_sources :: "source list"
  a_conversationId :: "string option"
  a_method :: string
  a_documentsSearched :: nat
  a_documentNames :: "string list"
  a_settingsUsed :: settings

datatype response =
    BadRequest string
  | NoDocuments
  | StillProcessing
  | Answered answer_body
  | ServerError string

text \<open>
  What the route asks of the database and of the language model: the documents of a
  user (all, or the one with the given id), the completion of a chat request, the
  increment of a document's query counter and the creation of a conversation.
\<close>

record backend =
  findDocuments :: "string \<Rightarrow> string option \<Rightarrow> error + document list"
  chatCompletion :: "chat_request \<Rightarrow> error + string"
  incQueryCount :: "string \<Rightarrow> error option"
  createConversation :: "string \<Rightarrow> string \<Rightarrow> string \<Rightarrow> string \<Rightarrow> string \<Rightarrow> error + string"

definition withDefaults :: "request_settings option \<Rightarrow> settings" where
  "withDefaults rs =
     (case rs of
        None \<Rightarrow> \<lparr>cfg_aiModel = ''llama-3.3-70b-versatile'', cfg_temperature = 7 / 10,
                  cfg_maxTokens = 2000, cfg_topK = 3, cfg_chunkSize = 1000\<rparr>
      | Some r \<Rightarrow>
          \<lparr>cfg_aiModel = (case rs_aiModel r of None \<Rightarrow> ''llama-3.3-70b-versatile'' | Some v \<Rightarrow> v),
           cfg_temperature = (case rs_temperature r of None \<Rightarrow> 7 / 10 | Some v \<Rightarrow> v),
           cfg_maxTokens = (case rs_maxTokens r of None \<Rightarrow> 2000 | Some v \<Rightarrow> v),
           cfg_topK = (case rs_topK r of None \<Rightarrow> 3 | Some v \<Rightarrow> v),
           cfg_chunkSize = (case rs_chunkSize r of None \<Rightarrow> 1000 | Some v \<Rightarrow> v)\<rparr>)"

definition specific :: "string option \<Rightarrow> bool" where
  \<comment> \<open>\<open>documentId && documentId !== 'all'\<close>\<close>
  "specific documentId =
     (case documentId of
        None \<Rightarrow> False
      | Some d \<Rightarrow> (if d = [] then False else if d = ''all'' then False else True))"

definition separator :: string where
  "separator = ''\<newline>\<newline>---\<newline>\<newline>''"

definition textOf :: "document \<Rightarrow> string" where
  "textOf d = (case d_textContent d of None \<Rightarrow> [] | Some t \<Rightarrow> t)"

definition withText :: "document \<Rightarrow> bool" where
  \<comment> \<open>\<open>d.textContent && d.textContent.trim().length > 0\<close>\<close>
  "withText d =
     (case d_textContent d of
        None \<Rightarrow> False
      | Some t \<Rightarrow> (if t = [] then False else length (js_trim t) > 0))"

definition vectorContext ::
  "int \<Rightarrow> int \<Rightarrow> document list \<Rightarrow> retrieval_result list \<Rightarrow> string \<times> source list" where
  "vectorContext topK chunkSize documents chunks =
     (let topChunks = js_slice0 chunks topK;
          context = js_join separator (map r_text topChunks);
          maxContextLength = chunkSize * topK;
          context1 = (if int (length context) > maxContextLength
                      then js_substring0 context maxContextLength else context);
          sources = map (\<lambda>chunk.
                      \<lparr>src_text = js_substring0 (r_text chunk) 300 @ ''...'',
                       src_score = r_score chunk,
                       src_documentName =
                         (case documents of [] \<Rightarrow> None | d # ds \<Rightarrow> Some (d_originalName d))\<rparr>)
                    topChunks
      in (context1, sources))"

definition directContext :: "string option \<Rightarrow> int \<Rightarrow> int \<Rightarrow> document list \<Rightarrow> error + string" where
  "directContext documentId topK chunkSize docsWithText =
     (if specific documentId then
        (case docsWithText of
           [] \<Rightarrow> Inl (Error ''TypeError'')
         | doc # ds \<Rightarrow> Inr (js_substring0 (textOf doc) (chunkSize * topK)))
      else
        Inr (js_substring0
               (js_join separator
                  (map (\<lambda>d. ''['' @ d_originalName d @ '']\<newline>'' @ textOf d) docsWithText))
               (chunkSize * topK)))"

text \<open>
  The retrieval step of the route. A throw of \<open>queryDocuments\<close> is caught and leaves
  \<open>context\<close>, \<open>sources\<close> and \<open>usedRAG\<close> as they were initialised.
\<close>

definition ragSearch ::
  "env \<Rightarrow> string \<Rightarrow> string option \<Rightarrow> int \<Rightarrow> int \<Rightarrow> document list \<Rightarrow> world
   \<Rightarrow> (string \<times> source list \<times> bool) \<times> world" where
  "ragSearch env question documentId topK chunkSize documents w =
     (if specific documentId then
        (case queryDocuments env question documentId topK w of
           (Inl ragError, w1) \<Rightarrow> (([], [], False), w1)
         | (Inr chunks, w1) \<Rightarrow>
             (if length chunks > 0 then
                (case vectorContext topK chunkSize documents chunks of
                   (context, sources) \<Rightarrow> ((context, sources, True), w1))
              else (([], [], False), w1)))
      else (([], [], False), w))"

definition assembleContext ::
  "env \<Rightarrow> string \<Rightarrow> string option \<Rightarrow> int \<Rightarrow> int \<Rightarrow> document list \<Rightarrow> document list \<Rightarrow> world
   \<Rightarrow> (error + string \<times> source list \<times> bool) \<times> world" where
  "assembleContext env question documentId topK chunkSize documents docsWithText w =
     (case ragSearch env question documentId topK chunkSize documents w of
        ((context, sources, usedRAG), w1) \<Rightarrow>
          (if usedRAG then
             (if context = [] then
                (case directContext documentId topK chunkSize docsWithText of
                   Inl e \<Rightarrow> (Inl e, w1)
                 | Inr direct \<Rightarrow> (Inr (direct, sources, usedRAG), w1))
              else (Inr (context, sources, usedRAG), w1))
           else
             (case directContext documentId topK chunkSize docsWithText of
                Inl e \<Rightarrow> (Inl e, w1)
              | Inr direct \<Rightarrow> (Inr (direct, sources, usedRAG), w1))))"

definition systemPrompt :: string where
  "systemPrompt =
     ''You are a helpful AI assistant. Answer questions based ONLY on the provided document content. \<newline>''
     @ ''If the answer is not in the document, clearly state that you cannot find that information.\<newline>''
     @ ''Be concise and accurate. Do not make up information.''"

definition chatRequest :: "settings \<Rightarrow> string \<Rightarrow> string \<Rightarrow> chat_request" where
  "chatRequest st context question =
     \<lparr>cr_model = cfg_aiModel st, cr_system = systemPrompt,
      cr_user = ''Document Content:\<newline>\<newline>'' @ context @ ''\<newline>\<newline>---\<newline>\<newline>Question: ''
                @ question @ ''\<newline>\<newline>Answer:'',
      cr_max_tokens = cfg_maxTokens st, cr_temperature = cfg_temperature st\<rparr>"

definition errorMessage :: "error \<Rightarrow> string" where
  \<comment> \<open>\<open>error.message || 'Failed to process query'\<close>\<close>
  "errorMessage e = (case e of Error m \<Rightarrow> (if m = [] then ''Failed to process query'' else m))"

definition conversationTitle :: "string \<Rightarrow> string" where
  "conversationTitle question =
     (if length question > 60 then js_substring0 question 60 @ ''...'' else question)"

definition saveConversation ::
  "backend \<Rightarrow> string \<Rightarrow> string option \<Rightarrow> document list \<Rightarrow> string \<Rightarrow> string \<Rightarrow> string option" where
  \<comment> \<open>a failure to save the conversation is caught: the id stays \<open>null\<close>\<close>
  "saveConversation be userId documentId documents question answer =
     (if specific documentId then
        (case documents of
           [] \<Rightarrow> None
         | d # ds \<Rightarrow>
             (case createConversation be userId (d_id d) (conversationTitle question)
                     question answer of
                Inl convError \<Rightarrow> None
              | Inr cid \<Rightarrow> Some cid))
      else None)"

definition respond ::
  "backend \<Rightarrow> string \<Rightarrow> string option \<Rightarrow> settings \<Rightarrow> string \<Rightarrow> document list \<Rightarrow> document list
   \<Rightarrow> string \<times> source list \<times> bool \<Rightarrow> response" where
  "respond be userId documentId st question documents docsWithText assembled =
     (case assembled of
        (context, sources, usedRAG) \<Rightarrow>
          (case chatCompletion be (chatRequest st context question) of
             Inl e \<Rightarrow> ServerError (errorMessage e)
           | Inr content \<Rightarrow>
               (let answer = js_trim content;
                    counted = (if specific documentId
                               then (case documentId of
                                       None \<Rightarrow> None
                                     | Some d \<Rightarrow> incQueryCount be d)
                               else None)
                in (case counted of
                      Some e \<Rightarrow> ServerError (errorMessage e)
                    | None \<Rightarrow>
                        Answered
                          \<lparr>a_answer = answer, a_sources = sources,
                           a_conversationId =
                             saveConversation be userId documentId documents question answer,
                           a_method = (if usedRAG then ''vector'' else ''direct''),
                           a_documentsSearched = length docsWithText,
                           a_documentNames = map d_originalName docsWithText,
                           a_settingsUsed = st\<rparr>))))"

definition queryRoute ::
  "env \<Rightarrow> backend \<Rightarrow> string \<Rightarrow> request \<Rightarrow> world \<Rightarrow> response \<times> world" where
  "queryRoute env be userId req w =
     (let st = withDefaults (rq_settings req);
          documentId = rq_documentId req
      in (case rq_question req of
            None \<Rightarrow> (BadRequest ''Question is required'', w)
          | Some question \<Rightarrow>
              (if isBlank question then (BadRequest ''Question is required'', w)
               else
                 (case findDocuments be userId
                         (if specific documentId then documentId else None) of
                    Inl e \<Rightarrow> (ServerError (errorMessage e), w)
                  | Inr documents \<Rightarrow>
                      (if length documents = 0 then (NoDocuments, w)
                       else
                         (let docsWithText = filter withText documents
                          in (if length docsWithText = 0 then (StillProcessing, w)
                              else
                                (case assembleContext env question documentId (cfg_topK st)
                                        (cfg_chunkSize st) documents docsWithText w of
                                   (Inl e, w1) \<Rightarrow> (ServerError (errorMessage e), w1)
                                 | (Inr assembled, w1) \<Rightarrow>
                                     (respond be userId documentId st question documents
                                        docsWithText assembled, w1)))))))))"

section \<open>EmbeddingService: cosine similarity and local ranking\<close>

text \<open>
  A JavaScript number is a real number, \<open>NaN\<close> or an infinity. The finite doubles are
  taken as reals: rounding and overflow are not modelled, division by zero is.
\<close>

datatype jsnum = Num real | NaN | PosInf | NegInf

definition js_div :: "real \<Rightarrow> real \<Rightarrow> jsnum" where
  \<comment> \<open>\<open>x / y\<close> for finite \<open>x\<close> and \<open>y\<close>, where \<open>y\<close> is not \<open>-0\<close>\<close>
  "js_div x y =
     (if y = 0 then (if x = 0 then NaN else if 0 < x then PosInf else NegInf)
      else Num (x / y))"

fun js_sub :: "jsnum \<Rightarrow> jsnum \<Rightarrow> jsnum" where
  "js_sub (Num x) (Num y) = Num (x - y)"
| "js_sub NaN b = NaN"
| "js_sub a NaN = NaN"
| "js_sub PosInf PosInf = NaN"
| "js_sub NegInf NegInf = NaN"
| "js_sub PosInf b = PosInf"
| "js_sub NegInf b = NegInf"
| "js_sub (Num x) PosInf = NegInf"
| "js_sub (Num x) NegInf = PosInf"

fun js_positive :: "jsnum \<Rightarrow> bool" where
  \<comment> \<open>\<open>v > 0\<close>\<close>
  "js_positive (Num x) = (0 < x)"
| "js_positive PosInf = True"
| "js_positive NaN = False"
| "js_positive NegInf = False"

fun js_ge :: "jsnum \<Rightarrow> jsnum \<Rightarrow> bool" where
  \<comment> \<open>\<open>a >= b\<close>: false as soon as one side is \<open>NaN\<close>\<close>
  "js_ge (Num x) (Num y) = (y \<le> x)"
| "js_ge NaN b = False"
| "js_ge a NaN = False"
| "js_ge PosInf b = True"
| "js_ge a NegInf = True"
| "js_ge NegInf b = False"
| "js_ge a PosInf = False"

definition accumulate :: "real list \<Rightarrow> real list \<Rightarrow> real \<times> real \<times> real" where
  \<comment> \<open>the loop of \<open>cosineSimilarity\<close>: \<open>dotProduct\<close>, \<open>normA\<close> and \<open>normB\<close> after the last index\<close>
  "accumulate vecA vecB =
     fold (\<lambda>(a, b) (dotProduct, normA, normB).
             (dotProduct + a * b, normA + a * a, normB + b * b))
          (zip vecA vecB) (0, 0, 0)"

definition cosineSimilarity :: "real list \<Rightarrow> real list \<Rightarrow> error + jsnum" where
  "cosineSimilarity vecA vecB =
     (if length vecA \<noteq> length vecB then Inl (Error ''Vectors must have the same length'')
      else
        (case accumulate vecA vecB of
           (dotProduct, normA, normB) \<Rightarrow> Inr (js_div dotProduct (sqrt normA * sqrt normB))))"

definition embedText :: "env \<Rightarrow> string \<Rightarrow> world \<Rightarrow> (error + real list) \<times> world" where
  "embedText env text w =
     (if isBlank text
      then (Inl (Error (''Failed to generate embedding: '' @ ''Text cannot be empty'')), w)
      else
        (let w1 = called (EmbedQuery text) w
         in (case embedQuery env 0 text of
               Inl (Error m) \<Rightarrow> (Inl (Error (''Failed to generate embedding: '' @ m)), w1)
             | Inr embedding \<Rightarrow> (Inr embedding, w1))))"

record embedded_document =
  ed_text :: string
  ed_embedding :: "real list"

record scored =
  sc_text :: string
  sc_score :: jsnum

fun scoreAll :: "real list \<Rightarrow> embedded_document list \<Rightarrow> error + scored list" where
  \<comment> \<open>\<open>documents.map(...)\<close>: the first document whose score throws ends the map\<close>
  "scoreAll queryEmbedding [] = Inr []"
| "scoreAll queryEmbedding (doc # docs) =
     (case cosineSimilarity queryEmbedding (ed_embedding doc) of
        Inl e \<Rightarrow> Inl e
      | Inr s \<Rightarrow>
          (case scoreAll queryEmbedding docs of
             Inl e \<Rightarrow> Inl e
           | Inr rest \<Rightarrow> Inr (\<lparr>sc_text = ed_text doc, sc_score = s\<rparr> # rest)))"

text \<open>
  \<open>Array.prototype.sort\<close> with a comparison function: the sort is stable, and an element
  moves behind another one only when the comparison of the two is positive (\<open>NaN\<close> is
  read as 0). The array is built from its end: each element is inserted in front of
  the sorted elements that followed it. For a consistent comparison this is the one
  result the language allows; for the others the language leaves the order to the
  engine.
\<close>

fun js_insert :: "('a \<Rightarrow> 'a \<Rightarrow> jsnum) \<Rightarrow> 'a \<Rightarrow> 'a list \<Rightarrow> 'a list" where
  "js_insert cmp x [] = [x]"
| "js_insert cmp x (y # ys) =
     (if js_positive (cmp x y) then y # js_insert cmp x ys else x # y # ys)"

definition js_sort :: "('a \<Rightarrow> 'a \<Rightarrow> jsnum) \<Rightarrow> 'a list \<Rightarrow> 'a list" where
  "js_sort cmp xs = foldr (js_insert cmp) xs []"

definition byScoreDesc :: "scored \<Rightarrow> scored \<Rightarrow> jsnum" where
  \<comment> \<open>\<open>(a, b) => b.score - a.score\<close>\<close>
  "byScoreDesc a b = js_sub (sc_score b) (sc_score a)"

definition findSimilar ::
  "env \<Rightarrow> string \<Rightarrow> embedded_document list \<Rightarrow> int \<Rightarrow> world \<Rightarrow> (error + scored list) \<times> world" where
  "findSimilar env query documents topK w =
     (case embedText env query w of
        (Inl (Error m), w1) \<Rightarrow> (Inl (Error (''Failed to find similar documents: '' @ m)), w1)
      | (Inr queryEmbedding, w1) \<Rightarrow>
          (case scoreAll queryEmbedding documents of
             Inl (Error m) \<Rightarrow> (Inl (Error (''Failed to find similar documents: '' @ m)), w1)
           | Inr results \<Rightarrow> (Inr (js_slice0 (js_sort byScoreDesc results) topK), w1)))"

section \<open>RAGService.splitDocument\<close>

record chunk =
  ch_index :: nat
  ch_charStart :: nat
  ch_text :: string

text \<open>
  Modelled from the spec: \<open>RecursiveCharacterTextSplitter.splitText\<close>, the splitter that
  \<open>splitDocument\<close> calls, comes from a package outside the sources. The spec's text
  chunker is a sliding window: a chunk has at most \<open>chunkSize\<close> characters and starts
  \<open>chunkSize - overlap\<close> characters after the start of the chunk before it; the sequence
  is finite and ends with the window that reaches the end of the text; a text shorter
  than \<open>chunkSize\<close> gives one chunk, the trimmed text; \<open>overlap \<ge> chunkSize\<close> is a
  configuration error. The spec's preference for natural breakpoints is left out, the
  spec giving no rule for it: the windows are the hard cuts it falls back to.
\<close>

function windows :: "nat \<Rightarrow> nat \<Rightarrow> string \<Rightarrow> nat \<Rightarrow> nat \<Rightarrow> chunk list" where
  "windows chunkSize step text index start =
     (if step = 0 then []
      else if length text \<le> start + chunkSize
      then [\<lparr>ch_index = index, ch_charStart = start, ch_text = drop start text\<rparr>]
      else \<lparr>ch_index = index, ch_charStart = start,
            ch_text = take chunkSize (drop start text)\<rparr>
           # windows chunkSize step text (index + 1) (start + step))"
  by pat_completeness auto
termination
  by (relation "measure (\<lambda>(chunkSize, step, text, index, start). length text - start)") auto

declare windows.simps [simp del]

definition textSplitter :: "nat \<Rightarrow> nat \<Rightarrow> string \<Rightarrow> error + chunk list" where
  "textSplitter chunkSize overlap text =
     (if chunkSize \<le> overlap then Inl (Error ''overlap must be smaller than chunkSize'')
      else if length text < chunkSize
      then Inr [\<lparr>ch_index = 0, ch_charStart = 0, ch_text = js_trim text\<rparr>]
      else Inr (windows chunkSize (chunkSize - overlap) text 0 0))"

definition splitDocument :: "string \<Rightarrow> error + chunk list" where
  \<comment> \<open>the splitter is built with \<open>chunkSize: 500, chunkOverlap: 100\<close>\<close>
  "splitDocument text = textSplitter 500 100 text"

section \<open>A concrete environment\<close>

text \<open>
  An environment in which every service answers: the splitter returns the text as one
  chunk, the provider returns vectors of three dimensions, the index is configured for
  384 dimensions and returns four matches in descending order of score, the second
  one without text and the third one without metadata.
\<close>

definition demoMatches :: "index_match list" where
  "demoMatches =
     [\<lparr>m_id = ''doc1_chunk_0'', m_score = 9 / 10,
       m_metadata = Some \<lparr>md_documentId = ''doc1'', md_chunkIndex = 0, md_text = Some ''alpha''\<rparr>\<rparr>,
      \<lparr>m_id = ''doc1_chunk_1'', m_score = 8 / 10,
       m_metadata = Some \<lparr>md_documentId = ''doc1'', md_chunkIndex = 1, md_text = None\<rparr>\<rparr>,
      \<lparr>m_id = ''doc1_chunk_2'', m_score = 7 / 10, m_metadata = None\<rparr>,
      \<lparr>m_id = ''doc1_chunk_3'', m_score = 6 / 10,
       m_metadata = Some \<lparr>md_documentId = ''doc1'', md_chunkIndex = 3, md_text = Some ''beta''\<rparr>\<rparr>]"

definition demoEnv :: env where
  "demoEnv =
     \<lparr>splitText = (\<lambda>text. Inr [text]),
      embedQuery = (\<lambda>i text. Inr [1, 0, 0]),
      describeIndexStats = (\<lambda>n. Inr \<lparr>st_dimension = Some 384, st_totalRecordCount = Some 0\<rparr>),
      ix_upsert = (\<lambda>n batch. None),
      ix_query = (\<lambda>opts. Inr (Some demoMatches)),
      ix_deleteMany = (\<lambda>ids. None)\<rparr>"

definition emptyWorld :: world where
  "emptyWorld = \<lparr>store = Map.empty, calls = []\<rparr>"

definition failingEnv :: env where
  \<comment> \<open>two chunks; the provider throws at the second one\<close>
  "failingEnv =
     demoEnv\<lparr>splitText := (\<lambda>text. Inr [''first'', ''second'']),
              embedQuery := (\<lambda>i text. if i = 1 then Inl (Error ''provider unavailable'')
                                       else Inr [1, 0, 0])\<rparr>"

definition mixedMatches :: "index_match list" where
  \<comment> \<open>six matches in descending order of score, three of them with a text\<close>
  "mixedMatches =
     [\<lparr>m_id = ''doc1_chunk_0'', m_score = 95 / 100,
       m_metadata = Some \<lparr>md_documentId = ''doc1'', md_chunkIndex = 0, md_text = None\<rparr>\<rparr>,
      \<lparr>m_id = ''doc1_chunk_1'', m_score = 9 / 10,
       m_metadata = Some \<lparr>md_documentId = ''doc1'', md_chunkIndex = 1, md_text = Some ''alpha''\<rparr>\<rparr>,
      \<lparr>m_id = ''doc1_chunk_2'', m_score = 8 / 10, m_metadata = None\<rparr>,
      \<lparr>m_id = ''doc1_chunk_3'', m_score = 7 / 10,
       m_metadata = Some \<lparr>md_documentId = ''doc1'', md_chunkIndex = 3, md_text = Some ''beta''\<rparr>\<rparr>,
      \<lparr>m_id = ''doc1_chunk_4'', m_score = 65 / 100,
       m_metadata = Some \<lparr>md_documentId = ''doc1'', md_chunkIndex = 4, md_text = Some []\<rparr>\<rparr>,
      \<lparr>m_id = ''doc1_chunk_5'', m_score = 6 / 10,
       m_metadata = Some \<lparr>md_documentId = ''doc1'', md_chunkIndex = 5, md_text = Some ''gamma''\<rparr>\<rparr>]"

definition mixedEnv :: env where
  "mixedEnv = demoEnv\<lparr>ix_query := (\<lambda>opts. Inr (Some mixedMatches))\<rparr>"

definition emptyIndexEnv :: env where
  \<comment> \<open>the index has no match for any query\<close>
  "emptyIndexEnv = demoEnv\<lparr>ix_query := (\<lambda>opts. Inr (Some []))\<rparr>"

definition demoDocument :: document where
  "demoDocument =
     \<lparr>d_id = ''doc1'', d_originalName = ''notes.txt'', d_textContent = Some ''hello world''\<rparr>"

definition demoBackend :: backend where
  "demoBackend =
     \<lparr>findDocuments = (\<lambda>userId documentId. Inr [demoDocument]),
      chatCompletion = (\<lambda>rq. Inr '' An answer. ''),
      incQueryCount = (\<lambda>documentId. None),
      createConversation = (\<lambda>userId documentId title question answer. Inr ''conv1'')\<rparr>"

definition demoRequest :: request where
  "demoRequest =
     \<lparr>rq_question = Some ''what'', rq_documentId = Some ''doc1'',
      rq_settings = Some \<lparr>rs_aiModel = None, rs_temperature = None, rs_maxTokens = None,
                           rs_topK = Some 3, rs_chunkSize = Some 2\<rparr>\<rparr>"

definition demoDocuments :: "embedded_document list" where
  "demoDocuments =
     [\<lparr>ed_text = ''a'', ed_embedding = [0, 1, 0]\<rparr>,
      \<lparr>ed_text = ''b'', ed_embedding = [1, 0, 0]\<rparr>,
      \<lparr>ed_text = ''c'', ed_embedding = [0, 0, 1]\<rparr>]"

definition zeroDocuments :: "embedded_document list" where
  \<comment> \<open>the second embedding has zero magnitude\<close>
  "zeroDocuments =
     [\<lparr>ed_text = ''a'', ed_embedding = [- 1, 0, 0]\<rparr>,
      \<lparr>ed_text = ''b'', ed_embedding = [0, 0, 0]\<rparr>,
      \<lparr>ed_text = ''c'', ed_embedding = [1, 0, 0]\<rparr>]"

section \<open>Notions used in the statements\<close>

definition embeddingFails :: "error + real list \<Rightarrow> bool" where
  \<comment> \<open>the provider throws, or returns what \<open>indexDocument\<close> rejects as invalid\<close>
  "embeddingFails r = (case r of Inl e \<Rightarrow> True | Inr embedding \<Rightarrow> length embedding = 0)"

definition matchesOf :: "index_match list option \<Rightarrow> index_match list" where
  "matchesOf resp = (case resp of None \<Rightarrow> [] | Some ms \<Rightarrow> ms)"

definition textAbsent :: "index_match \<Rightarrow> bool" where
  \<comment> \<open>the match has no metadata, or its metadata has no text\<close>
  "textAbsent m = (m_metadata m = None \<or> (\<exists>md. m_metadata m = Some md \<and> md_text md = None))"

definition carriesText :: "index_match \<Rightarrow> bool" where
  \<comment> \<open>the match has metadata with a text, and the text is not the empty string\<close>
  "carriesText m = (\<exists>md t. m_metadata m = Some md \<and> md_text md = Some t \<and> t \<noteq> [])"

definition dot :: "real list \<Rightarrow> real list \<Rightarrow> real" where
  "dot a b = (\<Sum>(x, y)\<leftarrow>zip a b. x * y)"

definition normSq :: "real list \<Rightarrow> real" where
  "normSq a = (\<Sum>x\<leftarrow>a. x * x)"

definition nonzero :: "real list \<Rightarrow> bool" where
  "nonzero v = (\<exists>x \<in> set v. x \<noteq> 0)"

definition cosine :: "real list \<Rightarrow> real list \<Rightarrow> real" where
  "cosine a b = dot a b / (sqrt (normSq a) * sqrt (normSq b))"

definition scoredBy :: "real list \<Rightarrow> embedded_document \<Rightarrow> scored" where
  "scoredBy queryEmbedding doc =
     \<lparr>sc_text = ed_text doc, sc_score = Num (cosine queryEmbedding (ed_embedding doc))\<rparr>"

definition scoreValue :: "scored \<Rightarrow> real" where
  "scoreValue r = (case sc_score r of Num x \<Rightarrow> x | _ \<Rightarrow> 0)"

definition finiteScore :: "scored \<Rightarrow> bool" where
  "finiteScore r = (case sc_score r of Num x \<Rightarrow> True | _ \<Rightarrow> False)"

section \<open>Basic facts\<close>

lemma dropWhile_all: "(\<forall>x \<in> set (dropWhile P s). P x) = (\<forall>x \<in> set s. P x)"
  by (induction s) auto

lemma js_trim_empty: "(js_trim s = []) = (\<forall>c \<in> set s. is_ws c)"
  by (simp add: js_trim_def dropWhile_all)

lemma isBlank_iff: "isBlank s = (\<forall>c \<in> set s. is_ws c)"
  by (cases s) (simp_all add: isBlank_def js_trim_empty)

lemma hasText_iff:
  "hasText m = (\<exists>md t. m_metadata m = Some md \<and> md_text md = Some t \<and> t \<noteq> [])"
  by (auto simp: hasText_def truthy_def split: option.splits)

lemma js_slice0_nonneg: "0 \<le> n \<Longrightarrow> js_slice0 xs n = take (nat n) xs"
  by (simp add: js_slice0_def)

lemma js_substring0_take: "js_substring0 s n = take (nat n) s"
  by (simp add: js_substring0_def)

lemma calls_called: "calls (called c w) = calls w @ [c]" "store (called c w) = store w"
  by (simp_all add: called_def)

lemma not_blank_what: "\<not> isBlank ''what''"
  by (simp add: isBlank_def js_trim_def is_ws_def)

section \<open>Properties of deleteDocument\<close>

text \<open>
  C10. Called with \<open>null\<close>, \<open>undefined\<close> or an empty list of vector ids,
  \<open>deleteDocument\<close> returns normally and leaves the world as it was: the index keeps
  its records and no call, in particular no delete, has been issued.
\<close>

theorem deleteDocument_nothing_to_delete:
  "deleteDocument env Null w = (Inr (), w)
   \<and> deleteDocument env Undefined w = (Inr (), w)
   \<and> deleteDocument env (Value []) w = (Inr (), w)"
  by (simp add: deleteDocument_def)

section \<open>Properties of splitDocument\<close>

text \<open>
  C4. A text of 1200 characters \<open>A\<close> is split, with \<open>chunkSize = 500\<close> and
  \<open>overlap = 100\<close>, into exactly three chunks: the spans \<open>[0:500]\<close>, \<open>[400:900]\<close> and
  \<open>[800:1200]\<close>, of 500, 500 and 400 characters, each starting 400 characters after
  the one before.
\<close>

theorem splitDocument_1200:
  "splitDocument (replicate 1200 CHR ''A'') =
     Inr [\<lparr>ch_index = 0, ch_charStart = 0, ch_text = replicate 500 CHR ''A''\<rparr>,
          \<lparr>ch_index = 1, ch_charStart = 400, ch_text = replicate 500 CHR ''A''\<rparr>,
          \<lparr>ch_index = 2, ch_charStart = 800, ch_text = replicate 400 CHR ''A''\<rparr>]"
  by (simp add: splitDocument_def textSplitter_def windows.simps [of 500])

section \<open>Properties of queryDocuments\<close>

text \<open>
  C2, as the code has it. A question that is empty or consists of whitespace (the
  strings of which \<open>isBlank\<close> holds: \<open>isBlank_iff\<close>) is answered with the empty
  sequence, a normal result and not an error: the guard returns before the provider or
  the index is called, and the world is left as it was.
\<close>

theorem queryDocuments_blank_question:
  "isBlank question \<Longrightarrow> queryDocuments env question documentId topK w = (Inr [], w)"
  by (simp add: queryDocuments_def)

theorem queryDocuments_blank_question_witness:
  "isBlank ''  ''
   \<and> queryDocuments demoEnv ''  '' (Some ''doc1'') 3 emptyWorld = (Inr [], emptyWorld)
   \<and> isBlank [CHR 0xA0, CHR 0x09]
   \<and> queryDocuments demoEnv [CHR 0xA0, CHR 0x09] (Some ''doc1'') 3 emptyWorld
       = (Inr [], emptyWorld)"
  using queryDocuments_blank_question [of "''  ''" demoEnv "Some ''doc1''" 3 emptyWorld]
    queryDocuments_blank_question [of "[CHR 0xA0, CHR 0x09]" demoEnv "Some ''doc1''" 3
      emptyWorld]
  by (simp add: isBlank_def js_trim_def is_ws_def)

text \<open>
  C2, as the claim states it, fails: a question of two spaces does not make
  \<open>queryDocuments\<close> fail. It returns the empty sequence.
\<close>

theorem queryDocuments_blank_question_no_error:
  "queryDocuments demoEnv ''  '' None 3 emptyWorld = (Inr [], emptyWorld)
   \<and> \<not> isl (fst (queryDocuments demoEnv ''  '' None 3 emptyWorld))"
  by (simp add: queryDocuments_def isBlank_def js_trim_def is_ws_def)

lemma hasText_carriesText: "hasText = carriesText"
  by (rule ext) (simp add: hasText_iff carriesText_def)

lemma carriesText_not_absent: "carriesText m \<Longrightarrow> \<not> textAbsent m"
  by (auto simp: carriesText_def textAbsent_def)

lemma toResult_carriesText:
  assumes "carriesText m"
  shows "r_text (toResult m) \<noteq> []
     \<and> md_text (r_metadata (toResult m)) = Some (r_text (toResult m))
     \<and> m_metadata m = Some (r_metadata (toResult m))
     \<and> r_id (toResult m) = m_id m \<and> r_score (toResult m) = m_score m"
  using assms by (auto simp: carriesText_def toResult_def)

text \<open>
  C5. For a question that is not blank and \<open>topK \<ge> 0\<close>, when the provider embeds the
  question and the index answers: the index has been asked for \<open>max topK 10\<close>
  candidates. The matches that are kept are those with metadata whose text is present
  and not empty: a match whose metadata or text is absent is not among them. The result
  is the first \<open>topK\<close> of the kept matches, in the order in which the index returned
  them: each returned element is one of the matches of the index, with its id, its
  score, its metadata and its non-empty text; the result has at most \<open>topK\<close> elements
  and is in descending order of score when the answer of the index is.
\<close>

theorem queryDocuments_topK:
  assumes "\<not> isBlank question" and "0 \<le> topK"
    and "embedQuery env 0 question = Inr queryEmbedding"
    and "ix_query env (queryOptions queryEmbedding documentId topK) = Inr resp"
  shows "q_topK (queryOptions queryEmbedding documentId topK) = max topK 10
     \<and> Query (queryOptions queryEmbedding documentId topK)
           \<in> set (calls (snd (queryDocuments env question documentId topK w)))
     \<and> fst (queryDocuments env question documentId topK w)
         = Inr (take (nat topK) (map toResult (filter carriesText (matchesOf resp))))
     \<and> (\<forall>m \<in> set (matchesOf resp).
           textAbsent m \<longrightarrow> m \<notin> set (filter carriesText (matchesOf resp)))
     \<and> (\<forall>r \<in> set (take (nat topK) (map toResult (filter carriesText (matchesOf resp)))).
           r_text r \<noteq> [] \<and> md_text (r_metadata r) = Some (r_text r)
           \<and> (\<exists>m \<in> set (matchesOf resp).
                 m_metadata m = Some (r_metadata r) \<and> m_id m = r_id r \<and> m_score m = r_score r))
     \<and> int (length (take (nat topK) (map toResult (filter carriesText (matchesOf resp)))))
           \<le> topK
     \<and> (sorted_wrt (\<lambda>a b. m_score b \<le> m_score a) (matchesOf resp) \<longrightarrow>
          sorted_wrt (\<lambda>a b. r_score b \<le> r_score a)
            (take (nat topK) (map toResult (filter carriesText (matchesOf resp)))))"
proof -
  let ?opts = "queryOptions queryEmbedding documentId topK"
  let ?kept = "filter carriesText (matchesOf resp)"
  let ?res = "map toResult ?kept"
  have 1: "q_topK ?opts = max topK 10"
    by (simp add: queryOptions_def)
  have 2: "Query ?opts \<in> set (calls (snd (queryDocuments env question documentId topK w)))"
    using assms
    by (simp add: queryDocuments_def noMatches_def calls_called Let_def split: option.splits)
  have 3: "fst (queryDocuments env question documentId topK w) = Inr (take (nat topK) ?res)"
    using assms
    by (simp add: queryDocuments_def noMatches_def matchesOf_def js_slice0_nonneg Let_def
        hasText_carriesText split: option.splits)
  have 4: "\<forall>m \<in> set (matchesOf resp). textAbsent m \<longrightarrow> m \<notin> set ?kept"
    using carriesText_not_absent by auto
  have 5: "r_text r \<noteq> [] \<and> md_text (r_metadata r) = Some (r_text r)
           \<and> (\<exists>m \<in> set (matchesOf resp).
                 m_metadata m = Some (r_metadata r) \<and> m_id m = r_id r \<and> m_score m = r_score r)"
    if "r \<in> set (take (nat topK) ?res)" for r
  proof -
    from that have "r \<in> set ?res" by (rule in_set_takeD)
    then obtain m where m: "m \<in> set (matchesOf resp)" "carriesText m" "r = toResult m"
      by auto
    from toResult_carriesText [OF m(2)] m(1,3) show ?thesis by auto
  qed
  have 6: "int (length (take (nat topK) ?res)) \<le> topK"
    using assms(2) by simp
  have score: "r_score (toResult m) = m_score m" for m
    by (simp add: toResult_def split: option.splits)
  have 7: "sorted_wrt (\<lambda>a b. r_score b \<le> r_score a) (take (nat topK) ?res)"
    if "sorted_wrt (\<lambda>a b. m_score b \<le> m_score a) (matchesOf resp)"
  proof -
    from that have "sorted_wrt (\<lambda>a b. m_score b \<le> m_score a) ?kept"
      by (rule sorted_wrt_filter)
    then have "sorted_wrt (\<lambda>a b. r_score b \<le> r_score a) ?res"
      by (simp add: sorted_wrt_map score)
    then show ?thesis
      by (rule sorted_wrt_take)
  qed
  from 1 2 3 4 5 6 7 show ?thesis by blast
qed

text \<open>
  Of six matches, the first has no text, the third no metadata and the fifth an empty
  text: with \<open>topK = 2\<close> the result is the second and the fourth match, and the sixth
  is cut off.
\<close>

theorem queryDocuments_topK_witness:
  "\<not> isBlank ''what'' \<and> (0::int) \<le> 2
   \<and> embedQuery mixedEnv 0 ''what'' = Inr [1, 0, 0]
   \<and> ix_query mixedEnv (queryOptions [1, 0, 0] (Some ''doc1'') 2) = Inr (Some mixedMatches)
   \<and> fst (queryDocuments mixedEnv ''what'' (Some ''doc1'') 2 emptyWorld)
      = Inr [\<lparr>r_id = ''doc1_chunk_1'', r_score = 9 / 10, r_text = ''alpha'',
              r_metadata = \<lparr>md_documentId = ''doc1'', md_chunkIndex = 1,
                             md_text = Some ''alpha''\<rparr>\<rparr>,
             \<lparr>r_id = ''doc1_chunk_3'', r_score = 7 / 10, r_text = ''beta'',
              r_metadata = \<lparr>md_documentId = ''doc1'', md_chunkIndex = 3,
                             md_text = Some ''beta''\<rparr>\<rparr>]
   \<and> filter carriesText mixedMatches = [mixedMatches ! 1, mixedMatches ! 3, mixedMatches ! 5]
   \<and> textAbsent (mixedMatches ! 0) \<and> textAbsent (mixedMatches ! 2)"
  using queryDocuments_topK [of "''what''" 2 mixedEnv "[1, 0, 0]" "Some ''doc1''"
      "Some mixedMatches" emptyWorld]
  by (simp add: not_blank_what mixedEnv_def demoEnv_def mixedMatches_def matchesOf_def
      carriesText_def textAbsent_def toResult_def queryOptions_def)

section \<open>Properties of indexDocument\<close>

text \<open>
  C1 fails on the code. The embeddings have three dimensions and the index is
  configured for 384: the check finds the mismatch, its \<open>catch\<close> only warns, and the
  run upserts the record and returns its id.
\<close>

theorem indexDocument_dimension_mismatch_commits:
  "checkDimension demoEnv [chunkRecord ''doc1'' 0 ''short text'' [1, 0, 0]]
     = Inl (Error ''Dimension mismatch: expected 384, got 3'')
   \<and> fst (indexDocument demoEnv ''doc1'' ''short text'' emptyWorld) = Inr [''doc1_chunk_0'']
   \<and> store (snd (indexDocument demoEnv ''doc1'' ''short text'' emptyWorld)) ''doc1_chunk_0''
       = Some (chunkRecord ''doc1'' 0 ''short text'' [1, 0, 0])"
  by (simp add: indexDocument_def isBlank_def js_trim_def is_ws_def demoEnv_def emptyWorld_def
      upsertAll_def batchUpsert.simps BATCH_SIZE_def called_def commit_def verifyUpload_def
      chunkRecord_def chunkId_def string_of_nat.simps checkDimension_def)

lemma embedChunks_store:
  "store (snd (embedChunks env documentId i chunks vectors w)) = store w"
  by (induction chunks arbitrary: i vectors w)
     (simp_all add: calls_called Let_def split: sum.splits)

lemma embedChunks_no_upsert:
  "filter is_Upsert (calls (snd (embedChunks env documentId i chunks vectors w)))
     = filter is_Upsert (calls w)"
  by (induction chunks arbitrary: i vectors w)
     (simp_all add: calls_called is_Upsert_def Let_def split: sum.splits)

lemma embedChunks_fails:
  "j < length chunks \<Longrightarrow> \<not> isBlank (chunks ! j) \<Longrightarrow>
   embeddingFails (embedQuery env (i + j) (chunks ! j)) \<Longrightarrow>
   \<exists>e. fst (embedChunks env documentId i chunks vectors w) = Inl e"
proof (induction chunks arbitrary: i j vectors w)
  case Nil
  then show ?case by simp
next
  case (Cons chunk rest)
  show ?case
  proof (cases j)
    case 0
    with Cons.prems show ?thesis
      by (auto simp: embeddingFails_def Let_def split: sum.splits)
  next
    case (Suc k)
    with Cons.prems have "k < length rest" "\<not> isBlank (rest ! k)"
      "embeddingFails (embedQuery env (Suc i + k) (rest ! k))"
      by simp_all
    from Cons.IH [OF this] show ?thesis
      by (auto simp: Let_def split: sum.splits)
  qed
qed

text \<open>
  In every run of \<open>indexDocument\<close> the calls to the provider come first: after the
  last embedding, no chunk is embedded any more.
\<close>

lemma calls_commit: "calls (commit batch w) = calls w"
  by (simp add: commit_def)

lemma embedChunks_calls:
  "\<exists>es. calls (snd (embedChunks env documentId i chunks vectors w)) = calls w @ es
        \<and> list_all is_EmbedQuery es"
proof (induction chunks arbitrary: i vectors w)
  case Nil
  show ?case by simp
next
  case (Cons chunk rest)
  show ?case
  proof (cases "isBlank chunk")
    case True
    with Cons.IH show ?thesis by simp
  next
    case False
    let ?w1 = "called (EmbedQuery chunk) w"
    show ?thesis
    proof (cases "embedQuery env i chunk")
      case (Inl e)
      with False show ?thesis
        by (simp add: calls_called is_EmbedQuery_def)
    next
      case (Inr embedding)
      show ?thesis
      proof (cases "length embedding = 0")
        case True
        with False Inr show ?thesis
          by (simp add: calls_called is_EmbedQuery_def)
      next
        case nonempty: False
        from Cons.IH [of "i + 1" "vectors @ [chunkRecord documentId i chunk embedding]" ?w1]
        obtain es where
          "calls (snd (embedChunks env documentId (i + 1) rest
                        (vectors @ [chunkRecord documentId i chunk embedding]) ?w1))
             = calls ?w1 @ es" and "list_all is_EmbedQuery es"
          by blast
        then have "calls (snd (embedChunks env documentId i (chunk # rest) vectors w))
                     = calls w @ (EmbedQuery chunk # es)
                   \<and> list_all is_EmbedQuery (EmbedQuery chunk # es)"
          using False Inr nonempty by (simp add: calls_called is_EmbedQuery_def)
        then show ?thesis by blast
      qed
    qed
  qed
qed

lemma batchUpsert_calls:
  "\<exists>us. calls (snd (batchUpsert env vectors i w)) = calls w @ us \<and> list_all is_Upsert us"
proof (induction env vectors i w rule: batchUpsert.induct)
  case (1 env vectors i w)
  show ?case
  proof (cases "i < length vectors")
    case False
    then show ?thesis by (simp add: batchUpsert.simps [of env vectors i w])
  next
    case True
    let ?batch = "take BATCH_SIZE (drop i vectors)"
    let ?w1 = "called (Upsert ?batch) w"
    show ?thesis
    proof (cases "ix_upsert env (i div BATCH_SIZE) ?batch")
      case (Some e)
      with True show ?thesis
        by (simp add: batchUpsert.simps [of env vectors i w] calls_called is_Upsert_def)
    next
      case None
      from "1.IH" [OF True refl refl None]
      obtain us where
        "calls (snd (batchUpsert env vectors (i + BATCH_SIZE) (commit ?batch ?w1)))
           = calls (commit ?batch ?w1) @ us" and "list_all is_Upsert us"
        by blast
      then have "calls (snd (batchUpsert env vectors i w)) = calls w @ (Upsert ?batch # us)
                 \<and> list_all is_Upsert (Upsert ?batch # us)"
        using True None
        by (simp add: batchUpsert.simps [of env vectors i w] calls_called calls_commit
            is_Upsert_def Let_def)
      then show ?thesis by blast
    qed
  qed
qed

lemma upsertAll_calls:
  "\<exists>rest. calls (snd (upsertAll env vectors w)) = calls w @ rest
          \<and> \<not> list_ex is_EmbedQuery rest"
proof -
  let ?w2 = "called DescribeIndexStats w"
  obtain r w3 where run: "batchUpsert env vectors 0 ?w2 = (r, w3)"
    by (cases "batchUpsert env vectors 0 ?w2")
  from batchUpsert_calls [of env vectors 0 ?w2] run
  obtain us where us: "calls w3 = calls w @ DescribeIndexStats # us" "list_all is_Upsert us"
    by (auto simp: calls_called)
  from us(2) have no: "\<not> list_ex is_EmbedQuery us"
    by (auto simp: list_all_iff list_ex_iff is_Upsert_def is_EmbedQuery_def
        split: ext_call.splits)
  have "\<exists>vs. calls (verifyUpload env vectors w3) = calls w3 @ vs \<and> \<not> list_ex is_EmbedQuery vs"
    by (cases "describeIndexStats env 1"; cases vectors)
       (simp_all add: verifyUpload_def calls_called is_EmbedQuery_def)
  then obtain vs where vs: "calls (verifyUpload env vectors w3) = calls w3 @ vs"
    "\<not> list_ex is_EmbedQuery vs" by blast
  show ?thesis
  proof (cases r)
    case (Inl e)
    with run us no have "calls (snd (upsertAll env vectors w)) = calls w @ (DescribeIndexStats # us)
        \<and> \<not> list_ex is_EmbedQuery (DescribeIndexStats # us)"
      by (simp add: upsertAll_def Let_def is_EmbedQuery_def split: sum.splits)
    then show ?thesis by blast
  next
    case (Inr u)
    with run us no vs have "calls (snd (upsertAll env vectors w))
          = calls w @ (DescribeIndexStats # us @ vs)
        \<and> \<not> list_ex is_EmbedQuery (DescribeIndexStats # us @ vs)"
      by (simp add: upsertAll_def Let_def is_EmbedQuery_def split: sum.splits)
    then show ?thesis by blast
  qed
qed

lemma indexDocument_embeds_first:
  "\<exists>es rest. calls (snd (indexDocument env documentId text w)) = calls w @ es @ rest
     \<and> list_all is_EmbedQuery es \<and> \<not> list_ex is_EmbedQuery rest"
proof -
  have trivial: "\<exists>es rest. calls w = calls w @ es @ rest
     \<and> list_all is_EmbedQuery es \<and> \<not> list_ex is_EmbedQuery rest"
    by (rule exI [of _ "[]"], rule exI [of _ "[]"]) simp
  show ?thesis
  proof (cases "isBlank text")
    case True
    with trivial show ?thesis by (simp add: indexDocument_def)
  next
    case False
    show ?thesis
    proof (cases "splitText env text")
      case (Inl e)
      with False trivial show ?thesis by (simp add: indexDocument_def)
    next
      case (Inr chunks)
      show ?thesis
      proof (cases "length chunks = 0")
        case True
        with False Inr trivial show ?thesis by (simp add: indexDocument_def)
      next
        case nonempty: False
        obtain r w1 where run: "embedChunks env documentId 0 chunks [] w = (r, w1)"
          by (cases "embedChunks env documentId 0 chunks [] w")
        from embedChunks_calls [of env documentId 0 chunks "[]" w] run
        obtain es where es: "calls w1 = calls w @ es" "list_all is_EmbedQuery es"
          by auto
        show ?thesis
        proof (cases r)
          case (Inl e)
          with False Inr nonempty run es
          have "calls (snd (indexDocument env documentId text w)) = calls w @ es @ []
                \<and> list_all is_EmbedQuery es \<and> \<not> list_ex is_EmbedQuery []"
            by (simp add: indexDocument_def)
          then show ?thesis by blast
        next
          case vs: (Inr vectors)
          show ?thesis
          proof (cases "length vectors = 0")
            case True
            with False Inr nonempty run es vs
            have "calls (snd (indexDocument env documentId text w)) = calls w @ es @ []
                \<and> list_all is_EmbedQuery es \<and> \<not> list_ex is_EmbedQuery []"
              by (simp add: indexDocument_def)
            then show ?thesis by blast
          next
            case some: False
            from upsertAll_calls [of env vectors w1] obtain rest' where
              "calls (snd (upsertAll env vectors w1)) = calls w1 @ rest'"
              "\<not> list_ex is_EmbedQuery rest'" by blast
            with False Inr nonempty run es vs some
            have "calls (snd (indexDocument env documentId text w)) = calls w @ es @ rest'
                \<and> list_all is_EmbedQuery es \<and> \<not> list_ex is_EmbedQuery rest'"
              by (simp add: indexDocument_def)
            then show ?thesis by blast
          qed
        qed
      qed
    qed
  qed
qed

text \<open>
  C8. When the embedding of one of the chunks fails (the chunk at position \<open>j\<close> is not
  blank, and the provider throws or returns an invalid embedding for it),
  \<open>indexDocument\<close> fails with an error, the index holds the records it held before, and
  the run has issued no upsert: the embeddings all come before the first batch.
\<close>

theorem indexDocument_embedding_failure:
  assumes "splitText env text = Inr chunks"
    and "j < length chunks" and "\<not> isBlank (chunks ! j)"
    and "embeddingFails (embedQuery env j (chunks ! j))"
  shows "(\<exists>e. fst (indexDocument env documentId text w) = Inl e)
     \<and> store (snd (indexDocument env documentId text w)) = store w
     \<and> filter is_Upsert (calls (snd (indexDocument env documentId text w)))
         = filter is_Upsert (calls w)"
proof (cases "isBlank text")
  case True
  then show ?thesis by (simp add: indexDocument_def)
next
  case False
  obtain r w1 where run: "embedChunks env documentId 0 chunks [] w = (r, w1)"
    by (cases "embedChunks env documentId 0 chunks [] w")
  from embedChunks_fails [OF assms(2,3), of env 0 documentId "[]" w] assms(4) run
  obtain e where e: "r = Inl e" by auto
  from embedChunks_store [of env documentId 0 chunks "[]" w] run
  have s: "store w1 = store w" by simp
  from embedChunks_no_upsert [of env documentId 0 chunks "[]" w] run
  have u: "filter is_Upsert (calls w1) = filter is_Upsert (calls w)" by simp
  from assms(2) have "length chunks \<noteq> 0" by auto
  with False assms(1) run e s u show ?thesis
    by (simp add: indexDocument_def)
qed

theorem indexDocument_embedding_failure_witness:
  "splitText failingEnv ''first second'' = Inr [''first'', ''second'']
   \<and> (1::nat) < length [''first'', ''second''] \<and> \<not> isBlank ([''first'', ''second''] ! 1)
   \<and> embeddingFails (embedQuery failingEnv 1 ([''first'', ''second''] ! 1))
   \<and> fst (indexDocument failingEnv ''doc1'' ''first second'' emptyWorld)
       = Inl (Error ''provider unavailable'')
   \<and> store (snd (indexDocument failingEnv ''doc1'' ''first second'' emptyWorld)) = Map.empty
   \<and> calls (snd (indexDocument failingEnv ''doc1'' ''first second'' emptyWorld))
       = [EmbedQuery ''first'', EmbedQuery ''second'']"
  using indexDocument_embedding_failure [of failingEnv "''first second''"
      "[''first'', ''second'']" 1 "''doc1''" emptyWorld]
  by (simp add: indexDocument_def failingEnv_def demoEnv_def emptyWorld_def embeddingFails_def
      isBlank_def js_trim_def is_ws_def called_def chunkRecord_def chunkId_def
      string_of_nat.simps)

section \<open>Properties of the query route\<close>

lemma demoRequest_settings:
  "withDefaults (rq_settings demoRequest)
     = \<lparr>cfg_aiModel = ''llama-3.3-70b-versatile'', cfg_temperature = 7 / 10,
        cfg_maxTokens = 2000, cfg_topK = 3, cfg_chunkSize = 2\<rparr>"
  by (simp add: withDefaults_def demoRequest_def)

lemma vectorContext_budget:
  "vectorContext topK chunkSize documents chunks = (context, sources) \<Longrightarrow>
   0 \<le> chunkSize * topK \<Longrightarrow> int (length context) \<le> chunkSize * topK"
  by (auto simp: vectorContext_def Let_def js_substring0_take split: if_splits)

lemma directContext_budget:
  "directContext documentId topK chunkSize docsWithText = Inr context \<Longrightarrow>
   0 \<le> chunkSize * topK \<Longrightarrow> int (length context) \<le> chunkSize * topK"
  by (auto simp: directContext_def js_substring0_take split: if_splits list.splits)

lemma directContext_returns:
  "docsWithText \<noteq> [] \<Longrightarrow>
   \<exists>context. directContext documentId topK chunkSize docsWithText = Inr context"
  by (cases docsWithText) (simp_all add: directContext_def)

lemma ragSearch_budget:
  "ragSearch env question documentId topK chunkSize documents w
     = ((context, sources, usedRAG), w1) \<Longrightarrow>
   0 \<le> chunkSize * topK \<Longrightarrow> int (length context) \<le> chunkSize * topK"
  by (auto simp: ragSearch_def split: if_splits prod.splits sum.splits
      dest: vectorContext_budget)

text \<open>
  C7. For a budget \<open>chunkSize * topK\<close> that is not negative, the route always
  assembles a context (it has a document with text when it gets there), and the
  context has at most \<open>chunkSize * topK\<close> characters, whatever the retrieval returned
  and on whichever path, vector or direct text, the context was built.
\<close>

theorem assembleContext_budget:
  assumes "docsWithText \<noteq> []" and "0 \<le> chunkSize * topK"
  shows "\<exists>context sources usedRAG w1.
           assembleContext env question documentId topK chunkSize documents docsWithText w
             = (Inr (context, sources, usedRAG), w1)
           \<and> int (length context) \<le> chunkSize * topK"
proof -
  obtain ctx sources usedRAG w1
    where rag: "ragSearch env question documentId topK chunkSize documents w
                  = ((ctx, sources, usedRAG), w1)"
    by (metis prod.exhaust)
  from directContext_returns [OF assms(1)] obtain direct
    where direct: "directContext documentId topK chunkSize docsWithText = Inr direct"
    by blast
  from directContext_budget [OF direct assms(2)]
  have d: "int (length direct) \<le> chunkSize * topK" .
  from ragSearch_budget [OF rag assms(2)]
  have c: "int (length ctx) \<le> chunkSize * topK" .
  from rag direct d c show ?thesis
    by (cases usedRAG; cases "ctx = []") (auto simp: assembleContext_def)
qed

theorem assembleContext_budget_witness:
  "[demoDocument] \<noteq> [] \<and> (0::int) \<le> 2 * 3
   \<and> fst (assembleContext demoEnv ''what'' (Some ''doc1'') 3 2 [demoDocument] [demoDocument]
             emptyWorld)
       = Inr (''alpha\<newline>'',
              [\<lparr>src_text = ''alpha...'', src_score = 9 / 10,
                src_documentName = Some ''notes.txt''\<rparr>,
               \<lparr>src_text = ''beta...'', src_score = 6 / 10,
                src_documentName = Some ''notes.txt''\<rparr>],
              True)
   \<and> int (length ''alpha\<newline>'') \<le> 2 * 3"
  using assembleContext_budget [of "[demoDocument]" 2 3 demoEnv "''what''" "Some ''doc1''"
      "[demoDocument]" emptyWorld]
  by (simp add: assembleContext_def ragSearch_def specific_def queryDocuments_def
      not_blank_what demoEnv_def demoMatches_def demoDocument_def hasText_def toResult_def
      truthy_def queryOptions_def js_slice0_def js_substring0_def vectorContext_def
      separator_def Let_def)

text \<open>
  C6. A question about one document, when \<open>queryDocuments\<close> returns the empty sequence
  or throws: the context of the route is the first \<open>chunkSize * topK\<close> characters of
  the text of the stored document, and, the language model answering and the query
  counter being updated, the response is a normal answer (the completion for that
  context, trimmed) whose \<open>method\<close> is \<open>direct\<close> and which lists no source.
\<close>

theorem queryRoute_fallback:
  assumes "rq_question req = Some question" and "\<not> isBlank question"
    and "rq_documentId req = Some did" and "specific (Some did)"
    and "st = withDefaults (rq_settings req)"
    and "findDocuments be userId (Some did) = Inr documents"
    and "filter withText documents = doc # rest"
    and "queryDocuments env question (Some did) (cfg_topK st) w = (r, w1)"
    and "r = Inr [] \<or> (\<exists>e. r = Inl e)"
    and "chatCompletion be
           (chatRequest st (take (nat (cfg_chunkSize st * cfg_topK st)) (textOf doc)) question)
           = Inr content"
    and "incQueryCount be did = None"
  shows "assembleContext env question (Some did) (cfg_topK st) (cfg_chunkSize st) documents
           (doc # rest) w
           = (Inr (take (nat (cfg_chunkSize st * cfg_topK st)) (textOf doc), [], False), w1)
     \<and> (\<exists>cid. queryRoute env be userId req w
           = (Answered \<lparr>a_answer = js_trim content, a_sources = [], a_conversationId = cid,
                        a_method = ''direct'', a_documentsSearched = Suc (length rest),
                        a_documentNames = map d_originalName (doc # rest),
                        a_settingsUsed = st\<rparr>, w1))"
proof -
  let ?direct = "take (nat (cfg_chunkSize st * cfg_topK st)) (textOf doc)"
  have rag: "ragSearch env question (Some did) (cfg_topK st) (cfg_chunkSize st) documents w
               = (([], [], False), w1)"
    using assms(4,8,9) by (auto simp: ragSearch_def)
  have direct: "directContext (Some did) (cfg_topK st) (cfg_chunkSize st) (doc # rest)
                  = Inr ?direct"
    using assms(4) by (simp add: directContext_def js_substring0_take)
  have asm: "assembleContext env question (Some did) (cfg_topK st) (cfg_chunkSize st)
               documents (doc # rest) w
               = (Inr (?direct, [], False), w1)"
    by (simp add: assembleContext_def rag direct)
  from assms(7) have ne: "documents \<noteq> []" by auto
  have route: "queryRoute env be userId req w
          = (respond be userId (Some did) st question documents (doc # rest)
               (?direct, [], False), w1)"
    using assms(1-7) ne asm by (simp add: queryRoute_def Let_def)
  have "\<exists>cid. respond be userId (Some did) st question documents (doc # rest)
               (?direct, [], False)
          = Answered \<lparr>a_answer = js_trim content, a_sources = [], a_conversationId = cid,
                        a_method = ''direct'', a_documentsSearched = Suc (length rest),
                        a_documentNames = map d_originalName (doc # rest),
                        a_settingsUsed = st\<rparr>"
    using assms(4,10,11) by (simp add: respond_def Let_def)
  with route asm show ?thesis by auto
qed

theorem queryRoute_fallback_witness:
  "rq_question demoRequest = Some ''what'' \<and> \<not> isBlank ''what''
   \<and> rq_documentId demoRequest = Some ''doc1'' \<and> specific (Some ''doc1'')
   \<and> findDocuments demoBackend ''user1'' (Some ''doc1'') = Inr [demoDocument]
   \<and> filter withText [demoDocument] = [demoDocument]
   \<and> fst (queryDocuments emptyIndexEnv ''what'' (Some ''doc1'') 3 emptyWorld) = Inr []
   \<and> incQueryCount demoBackend ''doc1'' = None
   \<and> fst (queryRoute emptyIndexEnv demoBackend ''user1'' demoRequest emptyWorld)
       = Answered \<lparr>a_answer = ''An answer.'', a_sources = [],
                    a_conversationId = Some ''conv1'', a_method = ''direct'',
                    a_documentsSearched = 1, a_documentNames = [''notes.txt''],
                    a_settingsUsed = withDefaults (rq_settings demoRequest)\<rparr>
   \<and> fst (assembleContext emptyIndexEnv ''what'' (Some ''doc1'') 3 2 [demoDocument]
             [demoDocument] emptyWorld)
       = Inr (''hello '', [], False)"
  using queryRoute_fallback [of demoRequest "''what''" "''doc1''"
      "withDefaults (rq_settings demoRequest)" demoBackend "''user1''" "[demoDocument]"
      demoDocument "[]" emptyIndexEnv emptyWorld
      "fst (queryDocuments emptyIndexEnv ''what'' (Some ''doc1'') 3 emptyWorld)"
      "snd (queryDocuments emptyIndexEnv ''what'' (Some ''doc1'') 3 emptyWorld)"
      "'' An answer. ''"]
  by (simp add: demoRequest_settings not_blank_what demoRequest_def demoBackend_def demoDocument_def
      emptyIndexEnv_def demoEnv_def specific_def withText_def js_trim_def is_ws_def
      queryDocuments_def noMatches_def queryOptions_def textOf_def saveConversation_def
      queryRoute_def assembleContext_def ragSearch_def directContext_def respond_def
      js_substring0_def Let_def)

section \<open>Properties of cosineSimilarity\<close>

lemma fold_accumulate:
  "length a = length b \<Longrightarrow>
   fold (\<lambda>(x, y) (dotProduct, normA, normB).
           (dotProduct + x * y, normA + x * x, normB + y * y)) (zip a b) (d, na, nb)
     = (d + dot a b, na + normSq a, nb + normSq b)"
  by (induction a b arbitrary: d na nb rule: list_induct2)
     (simp_all add: dot_def normSq_def algebra_simps)

lemma accumulate_eq:
  "length a = length b \<Longrightarrow> accumulate a b = (dot a b, normSq a, normSq b)"
  by (simp add: accumulate_def fold_accumulate)

lemma normSq_nonneg: "0 \<le> normSq a"
  by (induction a) (simp_all add: normSq_def)

lemma normSq_zero_iff: "(normSq a = 0) = (\<not> nonzero a)"
proof (induction a)
  case Nil
  then show ?case by (simp add: normSq_def nonzero_def)
next
  case (Cons x xs)
  have "0 \<le> normSq xs" by (rule normSq_nonneg)
  moreover have "0 \<le> x * x" by simp
  ultimately have "(x * x + normSq xs = 0) = (x = 0 \<and> normSq xs = 0)"
    by (metis add_nonneg_eq_0_iff mult_eq_0_iff)
  with Cons show ?case by (auto simp: normSq_def nonzero_def)
qed

lemma dot_simps:
  "dot [] b = 0" "dot a [] = 0" "dot (x # xs) (y # ys) = x * y + dot xs ys"
  by (simp_all add: dot_def)

lemma nonzero_Cons: "nonzero (x # xs) = (x \<noteq> 0 \<or> nonzero xs)"
  by (auto simp: nonzero_def)

lemma dot_zero_left: "\<not> nonzero a \<Longrightarrow> dot a b = 0"
proof (induction a arbitrary: b)
  case Nil
  show ?case by (simp add: dot_simps)
next
  case (Cons x xs)
  then show ?case
    by (cases b) (simp_all add: dot_simps nonzero_Cons)
qed

lemma dot_zero_right: "\<not> nonzero b \<Longrightarrow> dot a b = 0"
proof (induction b arbitrary: a)
  case Nil
  show ?case by (simp add: dot_simps)
next
  case (Cons y ys)
  then show ?case
    by (cases a) (simp_all add: dot_simps nonzero_Cons)
qed

lemma cauchy_step:
  fixes d x y na nb :: real
  assumes "d\<^sup>2 \<le> na * nb" "0 \<le> na" "0 \<le> nb"
  shows "(d + x * y)\<^sup>2 \<le> (na + x * x) * (nb + y * y)"
proof -
  let ?p = "sqrt na * \<bar>y\<bar>" and ?q = "sqrt nb * \<bar>x\<bar>"
  have "\<bar>d\<bar> \<le> sqrt (na * nb)"
    using assms(1) by (simp add: real_le_rsqrt)
  then have dle: "\<bar>d\<bar> \<le> sqrt na * sqrt nb"
    by (simp add: real_sqrt_mult)
  have "d * (x * y) \<le> \<bar>d\<bar> * (\<bar>x\<bar> * \<bar>y\<bar>)"
    by (metis abs_ge_self abs_mult)
  also have "\<dots> \<le> (sqrt na * sqrt nb) * (\<bar>x\<bar> * \<bar>y\<bar>)"
    using dle by (simp add: mult_right_mono)
  also have "\<dots> = ?p * ?q" by simp
  finally have 1: "d * (x * y) \<le> ?p * ?q" .
  have p2: "?p\<^sup>2 = na * (y * y)" and q2: "?q\<^sup>2 = nb * (x * x)"
    using assms(2,3) by (simp_all add: power_mult_distrib power2_eq_square [symmetric])
  have "0 \<le> (?p - ?q)\<^sup>2" by simp
  then have "2 * (?p * ?q) \<le> ?p\<^sup>2 + ?q\<^sup>2"
    by (simp add: power2_diff)
  then have 2: "2 * (?p * ?q) \<le> na * (y * y) + nb * (x * x)"
    by (simp only: p2 q2)
  have "(d + x * y)\<^sup>2 = d\<^sup>2 + 2 * (d * (x * y)) + (x * y)\<^sup>2"
    by (simp add: power2_sum)
  also have "\<dots> \<le> na * nb + (na * (y * y) + nb * (x * x)) + (x * y)\<^sup>2"
    using assms(1) 1 2 by linarith
  also have "\<dots> = (na + x * x) * (nb + y * y)"
    by (simp add: algebra_simps power2_eq_square)
  finally show ?thesis .
qed

lemma cauchy_schwarz:
  "length a = length b \<Longrightarrow> (dot a b)\<^sup>2 \<le> normSq a * normSq b"
proof (induction a b rule: list_induct2)
  case Nil
  then show ?case by (simp add: dot_def normSq_def)
next
  case (Cons x xs y ys)
  have "(dot xs ys + x * y)\<^sup>2 \<le> (normSq xs + x * x) * (normSq ys + y * y)"
    by (rule cauchy_step [OF Cons.IH normSq_nonneg normSq_nonneg])
  then show ?case by (simp add: dot_def normSq_def add.commute)
qed

lemma cosineSimilarity_nonzero:
  assumes "length a = length b" "nonzero a" "nonzero b"
  shows "\<exists>s. cosineSimilarity a b = Inr (Num s) \<and> - 1 \<le> s \<and> s \<le> 1"
proof -
  let ?den = "sqrt (normSq a) * sqrt (normSq b)"
  have pa: "0 < normSq a" and pb: "0 < normSq b"
    using assms(2,3) normSq_zero_iff normSq_nonneg by (metis less_eq_real_def)+
  then have den: "0 < ?den" by simp
  have "\<bar>dot a b\<bar> \<le> sqrt (normSq a * normSq b)"
    using cauchy_schwarz [OF assms(1)] by (simp add: real_le_rsqrt)
  then have "\<bar>dot a b\<bar> \<le> ?den" by (simp add: real_sqrt_mult)
  then have "- ?den \<le> dot a b" and "dot a b \<le> ?den"
    by linarith+
  then have "- 1 \<le> dot a b / ?den \<and> dot a b / ?den \<le> 1"
    using den by (simp add: pos_le_divide_eq pos_divide_le_eq)
  moreover have "cosineSimilarity a b = Inr (Num (dot a b / ?den))"
    using assms(1) pa pb by (simp add: cosineSimilarity_def accumulate_eq js_div_def)
  ultimately show ?thesis by blast
qed

lemma cosineSimilarity_self:
  assumes "nonzero v"
  shows "cosineSimilarity v v = Inr (Num 1)"
proof -
  have "0 < normSq v"
    using assms normSq_zero_iff normSq_nonneg by (metis less_eq_real_def)
  moreover have "dot v v = normSq v"
    by (induction v) (simp_all add: dot_def normSq_def)
  ultimately show ?thesis
    by (simp add: cosineSimilarity_def accumulate_eq js_div_def)
qed

lemma cosineSimilarity_zero:
  assumes "length a = length b" "\<not> nonzero a \<or> \<not> nonzero b"
  shows "cosineSimilarity a b = Inr NaN"
proof -
  from assms(2) have "dot a b = 0" using dot_zero_left dot_zero_right by blast
  moreover from assms(2) have "sqrt (normSq a) * sqrt (normSq b) = 0"
    using normSq_zero_iff by auto
  ultimately show ?thesis
    using assms(1) by (simp add: cosineSimilarity_def accumulate_eq js_div_def)
qed

text \<open>
  C3 fails on the code. For a vector of zero magnitude the quotient is \<open>0 / 0\<close>: the
  function returns \<open>NaN\<close>, which is no number between \<open>-1\<close> and \<open>1\<close>. (For two
  vectors of the same length and of non-zero magnitude the value is in that range, and
  it is 1 for a vector and itself: \<open>cosineSimilarity_nonzero\<close>, \<open>cosineSimilarity_self\<close>.)
\<close>

theorem cosineSimilarity_zero_vector_NaN:
  "cosineSimilarity [0, 0] [1, 2] = Inr NaN"
  by (simp add: cosineSimilarity_def accumulate_def js_div_def)

section \<open>Properties of findSimilar\<close>

lemma cosineSimilarity_cosine:
  assumes "length a = length b" "nonzero a" "nonzero b"
  shows "cosineSimilarity a b = Inr (Num (cosine a b))"
proof -
  have "0 < normSq a" and "0 < normSq b"
    using assms(2,3) normSq_zero_iff normSq_nonneg by (metis less_eq_real_def)+
  then show ?thesis
    using assms(1) by (simp add: cosineSimilarity_def accumulate_eq js_div_def cosine_def)
qed

lemma scoreAll_scoredBy:
  "nonzero queryEmbedding \<Longrightarrow>
   \<forall>d \<in> set documents. length (ed_embedding d) = length queryEmbedding \<and> nonzero (ed_embedding d) \<Longrightarrow>
   scoreAll queryEmbedding documents = Inr (map (scoredBy queryEmbedding) documents)"
  by (induction documents) (simp_all add: cosineSimilarity_cosine scoredBy_def)

lemma positive_byScoreDesc:
  "finiteScore a \<Longrightarrow> finiteScore b \<Longrightarrow>
   js_positive (byScoreDesc a b) = (scoreValue a < scoreValue b)"
  by (cases "sc_score a"; cases "sc_score b")
     (simp_all add: finiteScore_def scoreValue_def byScoreDesc_def)

lemma js_insert_insort_key:
  "finiteScore x \<Longrightarrow> \<forall>r \<in> set ys. finiteScore r \<Longrightarrow>
   js_insert byScoreDesc x ys = insort_key (\<lambda>r. - scoreValue r) x ys"
  by (induction ys) (auto simp: positive_byScoreDesc)

lemma js_sort_sort_key:
  "\<forall>r \<in> set xs. finiteScore r \<Longrightarrow>
   js_sort byScoreDesc xs = sort_key (\<lambda>r. - scoreValue r) xs"
proof (induction xs)
  case Nil
  show ?case by (simp add: js_sort_def)
next
  case (Cons x xs)
  then have "js_sort byScoreDesc xs = sort_key (\<lambda>r. - scoreValue r) xs"
    by simp
  moreover have "\<forall>r \<in> set (sort_key (\<lambda>r. - scoreValue r) xs). finiteScore r"
    using Cons.prems by simp
  ultimately show ?case
    using Cons.prems by (simp add: js_sort_def js_insert_insort_key)
qed

lemma js_ge_finite:
  "finiteScore a \<Longrightarrow> finiteScore b \<Longrightarrow>
   js_ge (sc_score a) (sc_score b) = (scoreValue b \<le> scoreValue a)"
  by (cases "sc_score a"; cases "sc_score b") (simp_all add: finiteScore_def scoreValue_def)

lemma js_sort_descending:
  assumes "\<forall>r \<in> set xs. finiteScore r"
  shows "sorted_wrt (\<lambda>a b. js_ge (sc_score a) (sc_score b)) (js_sort byScoreDesc xs)"
proof -
  let ?ys = "sort_key (\<lambda>r. - scoreValue r) xs"
  have "sorted (map (\<lambda>r. - scoreValue r) ?ys)"
    by (rule sorted_sort_key)
  then have "sorted_wrt (\<lambda>a b. - scoreValue a \<le> - scoreValue b) ?ys"
    by (simp add: sorted_map)
  moreover have "js_ge (sc_score a) (sc_score b)"
    if "a \<in> set ?ys" "b \<in> set ?ys" "- scoreValue a \<le> - scoreValue b" for a b
    using that assms by (simp add: js_ge_finite)
  ultimately have "sorted_wrt (\<lambda>a b. js_ge (sc_score a) (sc_score b)) ?ys"
    by (rule sorted_wrt_mono_rel [rotated])
  then show ?thesis
    using assms by (simp add: js_sort_sort_key)
qed

lemma js_sort_stable:
  assumes "\<forall>r \<in> set xs. finiteScore r"
  shows "filter (\<lambda>r. sc_score r = k) (js_sort byScoreDesc xs) = filter (\<lambda>r. sc_score r = k) xs"
proof -
  let ?f = "\<lambda>r. - scoreValue r"
  have same: "(sc_score r = k) = (finiteScore (\<lparr>sc_text = [], sc_score = k\<rparr>) \<and> ?f r = - scoreValue \<lparr>sc_text = [], sc_score = k\<rparr>)"
    if "finiteScore r" for r
    using that by (cases "sc_score r"; cases k) (simp_all add: finiteScore_def scoreValue_def)
  show ?thesis
  proof (cases "finiteScore \<lparr>sc_text = [], sc_score = k\<rparr>")
    case True
    let ?v = "- scoreValue \<lparr>sc_text = [], sc_score = k\<rparr>"
    have "filter (\<lambda>r. sc_score r = k) (sort_key ?f xs) = filter (\<lambda>r. ?f r = ?v) (sort_key ?f xs)"
      using assms True by (intro filter_cong) (simp_all add: same)
    also have "\<dots> = filter (\<lambda>r. ?f r = ?v) xs"
      by (rule sort_key_stable)
    also have "\<dots> = filter (\<lambda>r. sc_score r = k) xs"
      using assms True by (intro filter_cong) (simp_all add: same)
    finally show ?thesis
      using assms by (simp add: js_sort_sort_key)
  next
    case False
    have "filter (\<lambda>r. sc_score r = k) (sort_key ?f xs) = []"
      using assms False by (simp add: same filter_empty_conv)
    moreover have "filter (\<lambda>r. sc_score r = k) xs = []"
      using assms False by (simp add: same filter_empty_conv)
    ultimately show ?thesis
      using assms by (simp add: js_sort_sort_key)
  qed
qed

text \<open>
  When the query and every document have embeddings of one length and of non-zero
  magnitude, the result of \<open>findSimilar\<close> is the first \<open>topK\<close> elements of a
  rearrangement of the scored documents that is in descending order of score and keeps
  the documents of equal score in the order of the input.
\<close>

lemma findSimilar_ranking:
  assumes "\<not> isBlank query" and "embedQuery env 0 query = Inr queryEmbedding"
    and "nonzero queryEmbedding"
    and "\<forall>d \<in> set documents.
           length (ed_embedding d) = length queryEmbedding \<and> nonzero (ed_embedding d)"
    and "0 \<le> topK"
  shows "\<exists>ranked.
           fst (findSimilar env query documents topK w) = Inr (take (nat topK) ranked)
           \<and> mset ranked = mset (map (scoredBy queryEmbedding) documents)
           \<and> sorted_wrt (\<lambda>a b. js_ge (sc_score a) (sc_score b)) ranked
           \<and> (\<forall>k. filter (\<lambda>r. sc_score r = k) ranked
                   = filter (\<lambda>r. sc_score r = k) (map (scoredBy queryEmbedding) documents))"
proof -
  let ?results = "map (scoredBy queryEmbedding) documents"
  let ?ranked = "js_sort byScoreDesc ?results"
  have fin: "\<forall>r \<in> set ?results. finiteScore r"
    by (simp add: finiteScore_def scoredBy_def)
  have "fst (findSimilar env query documents topK w) = Inr (take (nat topK) ?ranked)"
    using assms
    by (simp add: findSimilar_def embedText_def scoreAll_scoredBy js_slice0_nonneg Let_def)
  moreover have "mset ?ranked = mset ?results"
    using fin by (simp add: js_sort_sort_key)
  moreover note js_sort_descending [OF fin] js_sort_stable [OF fin]
  ultimately show ?thesis by blast
qed

text \<open>
  C9 fails on the code. The second of three documents has an embedding of zero
  magnitude: its score is \<open>NaN\<close>, every comparison with it is \<open>NaN\<close>, which the sort
  reads as equal, and the documents come back in the order of the input, the score
  \<open>-1\<close> before the score \<open>1\<close>.
\<close>

theorem findSimilar_zero_vector_unsorted:
  "fst (findSimilar demoEnv ''what'' zeroDocuments 3 emptyWorld)
     = Inr [\<lparr>sc_text = ''a'', sc_score = Num (- 1)\<rparr>,
            \<lparr>sc_text = ''b'', sc_score = NaN\<rparr>,
            \<lparr>sc_text = ''c'', sc_score = Num 1\<rparr>]
   \<and> \<not> sorted_wrt (\<lambda>a b. js_ge (sc_score a) (sc_score b))
         [\<lparr>sc_text = ''a'', sc_score = Num (- 1)\<rparr>,
          \<lparr>sc_text = ''b'', sc_score = NaN\<rparr>,
          \<lparr>sc_text = ''c'', sc_score = Num 1\<rparr>]"
  by (simp add: not_blank_what demoEnv_def zeroDocuments_def findSimilar_def
      embedText_def cosineSimilarity_def accumulate_def js_div_def js_sort_def
      byScoreDesc_def js_slice0_def Let_def)

end
